theory Spec2Isabelle
  imports Main "HOL-Library.Word"
begin

unbundle bit_operations_syntax

section \<open>The GitHub App installation handshake (githubappauth/middleware.go)\<close>

text \<open>
  A shallow embedding of \<^verbatim>\<open>cmd/frontend/internal/auth/githubappauth/middleware.go\<close>:
  the four HTTP handlers of \<^verbatim>\<open>gitHubAppServer\<close>, \<^verbatim>\<open>RandomState\<close>,
  \<^verbatim>\<open>generateRedirectURL\<close> and \<^verbatim>\<open>createGitHubApp\<close>.

  Go strings are byte strings, so they are \<^typ>\<open>string\<close> (a list of 8-bit characters) and
  \<^verbatim>\<open>len\<close> is \<^const>\<open>length\<close>. A Go \<^verbatim>\<open>error\<close> is represented by its message
  (what \<^verbatim>\<open>err.Error()\<close> returns); a function returning \<^verbatim>\<open>(T, error)\<close> returns
  \<open>error + T\<close>, with \<open>Inl\<close> the error. The Go \<^verbatim>\<open>int\<close> is 64 bits wide; it is an
  \<^typ>\<open>int\<close> here, and the one place that produces it from text (\<^verbatim>\<open>strconv.Atoi\<close>)
  checks the range.
\<close>

type_synonym byte = "8 word"
type_synonym error = string

subsection \<open>crypto/sha256 and encoding/hex\<close>

text \<open>
  \<^verbatim>\<open>RandomState\<close> hashes its random bytes with SHA-256 (FIPS 180-4) and hex-encodes the
  digest. Both are written out, so that the length and alphabet of a token are proved and
  not assumed.
\<close>

definition K256 :: "32 word list" where
  "K256 =
   [0x428A2F98, 0x71374491, 0xB5C0FBCF, 0xE9B5DBA5, 0x3956C25B, 0x59F111F1, 0x923F82A4, 0xAB1C5ED5,
    0xD807AA98, 0x12835B01, 0x243185BE, 0x550C7DC3, 0x72BE5D74, 0x80DEB1FE, 0x9BDC06A7, 0xC19BF174,
    0xE49B69C1, 0xEFBE4786, 0x0FC19DC6, 0x240CA1CC, 0x2DE92C6F, 0x4A7484AA, 0x5CB0A9DC, 0x76F988DA,
    0x983E5152, 0xA831C66D, 0xB00327C8, 0xBF597FC7, 0xC6E00BF3, 0xD5A79147, 0x06CA6351, 0x14292967,
    0x27B70A85, 0x2E1B2138, 0x4D2C6DFC, 0x53380D13, 0x650A7354, 0x766A0ABB, 0x81C2C92E, 0x92722C85,
    0xA2BFE8A1, 0xA81A664B, 0xC24B8B70, 0xC76C51A3, 0xD192E819, 0xD6990624, 0xF40E3585, 0x106AA070,
    0x19A4C116, 0x1E376C08, 0x2748774C, 0x34B0BCB5, 0x391C0CB3, 0x4ED8AA4A, 0x5B9CCA4F, 0x682E6FF3,
    0x748F82EE, 0x78A5636F, 0x84C87814, 0x8CC70208, 0x90BEFFFA, 0xA4506CEB, 0xBEF9A3F7, 0xC67178F2]"

definition rotr :: "nat \<Rightarrow> 32 word \<Rightarrow> 32 word" where
  "rotr n x = drop_bit n x OR push_bit (32 - n) x"

definition Ch :: "32 word \<Rightarrow> 32 word \<Rightarrow> 32 word \<Rightarrow> 32 word" where
  "Ch x y z = (x AND y) XOR (NOT x AND z)"

definition Maj :: "32 word \<Rightarrow> 32 word \<Rightarrow> 32 word \<Rightarrow> 32 word" where
  "Maj x y z = (x AND y) XOR (x AND z) XOR (y AND z)"

definition bsig0 :: "32 word \<Rightarrow> 32 word" where
  "bsig0 x = rotr 2 x XOR rotr 13 x XOR rotr 22 x"

definition bsig1 :: "32 word \<Rightarrow> 32 word" where
  "bsig1 x = rotr 6 x XOR rotr 11 x XOR rotr 25 x"

definition ssig0 :: "32 word \<Rightarrow> 32 word" where
  "ssig0 x = rotr 7 x XOR rotr 18 x XOR drop_bit 3 x"

definition ssig1 :: "32 word \<Rightarrow> 32 word" where
  "ssig1 x = rotr 17 x XOR rotr 19 x XOR drop_bit 10 x"

definition be32 :: "byte list \<Rightarrow> 32 word" where
  "be32 bs = foldl (\<lambda>acc b. push_bit 8 acc OR ucast b) 0 (take 4 bs)"

definition be32_bytes :: "32 word \<Rightarrow> byte list" where
  "be32_bytes x = [ucast (drop_bit 24 x), ucast (drop_bit 16 x), ucast (drop_bit 8 x), ucast x]"

definition be64_bytes :: "64 word \<Rightarrow> byte list" where
  "be64_bytes x = map (\<lambda>i. ucast (drop_bit (8 * (7 - i)) x)) [0..<8]"

definition sha256_pad :: "byte list \<Rightarrow> byte list" where
  "sha256_pad msg =
     msg @ [0x80] @ replicate ((64 - (length msg + 9) mod 64) mod 64) 0
         @ be64_bytes (word_of_nat (8 * length msg))"

definition sha256_blocks :: "byte list \<Rightarrow> byte list list" where
  "sha256_blocks bs = map (\<lambda>i. take 64 (drop (64 * i) bs)) [0..<length bs div 64]"

fun sha256_schedule :: "nat \<Rightarrow> 32 word list \<Rightarrow> 32 word list" where
  "sha256_schedule 0 ws = ws"
| "sha256_schedule (Suc n) ws =
     sha256_schedule n
       (ws @ [ssig1 (ws ! (length ws - 2)) + ws ! (length ws - 7)
                + ssig0 (ws ! (length ws - 15)) + ws ! (length ws - 16)])"

type_synonym sha256_state =
  "32 word \<times> 32 word \<times> 32 word \<times> 32 word \<times> 32 word \<times> 32 word \<times> 32 word \<times> 32 word"

definition sha256_round :: "sha256_state \<Rightarrow> 32 word \<times> 32 word \<Rightarrow> sha256_state" where
  "sha256_round st kw =
     (case st of (a, b, c, d, e, f, g, h) \<Rightarrow>
        let t1 = h + bsig1 e + Ch e f g + fst kw + snd kw;
            t2 = bsig0 a + Maj a b c
        in (t1 + t2, a, b, c, d + t1, e, f, g))"

definition sha256_block :: "sha256_state \<Rightarrow> byte list \<Rightarrow> sha256_state" where
  "sha256_block st blk =
     (let w = sha256_schedule 48 (map (\<lambda>i. be32 (drop (4 * i) blk)) [0..<16]) in
      case (st, foldl sha256_round st (zip K256 w)) of
        ((a, b, c, d, e, f, g, h), (a', b', c', d', e', f', g', h')) \<Rightarrow>
          (a + a', b + b', c + c', d + d', e + e', f + f', g + g', h + h'))"

definition sha256_init :: sha256_state where
  "sha256_init =
     (0x6a09e667, 0xbb67ae85, 0x3c6ef372, 0xa54ff53a, 0x510e527f, 0x9b05688c, 0x1f83d9ab, 0x5be0cd19)"

text \<open>\<^verbatim>\<open>h := sha256.New(); h.Write(data); h.Sum(nil)\<close>\<close>

definition sha256_Sum :: "byte list \<Rightarrow> byte list" where
  "sha256_Sum msg =
     (case foldl sha256_block sha256_init (sha256_blocks (sha256_pad msg)) of
        (a, b, c, d, e, f, g, h) \<Rightarrow> concat (map be32_bytes [a, b, c, d, e, f, g, h]))"

definition hextable :: string where
  "hextable = ''0123456789abcdef''"

text \<open>\<^verbatim>\<open>hex.EncodeToString\<close>: two characters of \<^const>\<open>hextable\<close> for each byte.\<close>

definition hex_EncodeToString :: "byte list \<Rightarrow> string" where
  "hex_EncodeToString src =
     concat (map (\<lambda>v. [hextable ! unat (drop_bit 4 v), hextable ! unat (v AND 0x0f)]) src)"

subsection \<open>strconv and net/url\<close>

definition digit_char :: "nat \<Rightarrow> char" where
  "digit_char d = ''0123456789'' ! d"

fun nat_decimal :: "nat \<Rightarrow> string" where
  "nat_decimal n = (if n < 10 then [digit_char n] else nat_decimal (n div 10) @ [digit_char (n mod 10)])"

declare nat_decimal.simps [simp del]

text \<open>\<^verbatim>\<open>strconv.Itoa\<close>, which is also what the verb \<^verbatim>\<open>%d\<close> prints for an int.\<close>

definition strconv_Itoa :: "int \<Rightarrow> string" where
  "strconv_Itoa i = (if i < 0 then CHR ''-'' # nat_decimal (nat (- i)) else nat_decimal (nat i))"

definition is_digit :: "char \<Rightarrow> bool" where
  "is_digit c = ((48::nat) \<le> of_char c \<and> of_char c \<le> (57::nat))"

definition digit_val :: "char \<Rightarrow> int" where
  "digit_val c = int (of_char c) - 48"

text \<open>
  \<^verbatim>\<open>strconv.Atoi\<close> (that is \<^verbatim>\<open>ParseInt(s, 10, 0)\<close>) on a 64-bit platform: an optional
  sign, then one or more decimal digits and nothing else; a value outside the int64 range
  is an error. The handlers never print the error of \<^verbatim>\<open>Atoi\<close>, so only its kind
  (\<^verbatim>\<open>ErrSyntax\<close>, \<^verbatim>\<open>ErrRange\<close>) is kept as the message.
\<close>

definition strconv_Atoi :: "string \<Rightarrow> error + int" where
  "strconv_Atoi s =
     (let neg = (s \<noteq> [] \<and> hd s = CHR ''-'');
          ds = (if s \<noteq> [] \<and> (hd s = CHR ''+'' \<or> hd s = CHR ''-'') then tl s else s)
      in if ds = [] \<or> (\<exists>c \<in> set ds. \<not> is_digit c)
         then Inl ''invalid syntax''  
         else
           (let un = foldl (\<lambda>acc c. acc * 10 + digit_val c) 0 ds in
            if (\<not> neg \<and> un \<ge> 2 ^ 63) \<or> (neg \<and> un > 2 ^ 63)
            then Inl ''value out of range''  
            else Inr (if neg then - un else un)))"

definition upperhex :: string where
  "upperhex = ''0123456789ABCDEF''"

definition is_alnum :: "char \<Rightarrow> bool" where
  "is_alnum c =
     (((97::nat) \<le> of_char c \<and> of_char c \<le> (122::nat))
      \<or> ((65::nat) \<le> of_char c \<and> of_char c \<le> (90::nat))
      \<or> ((48::nat) \<le> of_char c \<and> of_char c \<le> (57::nat)))"

text \<open>
  \<^verbatim>\<open>shouldEscape(c, encodeQueryComponent)\<close> of net/url: only the unreserved characters
  are left alone.
\<close>

definition shouldEscape :: "char \<Rightarrow> bool" where
  "shouldEscape c = (if is_alnum c then False else c \<notin> set ''-_.~'')"

definition escape_char :: "char \<Rightarrow> string" where
  "escape_char c =
     (if shouldEscape c then
        (if c = CHR '' '' then ''+''
         else [CHR ''%'', upperhex ! (of_char c div 16), upperhex ! (of_char c mod 16)])
      else [c])"

text \<open>\<^verbatim>\<open>url.QueryEscape\<close>\<close>

definition url_QueryEscape :: "string \<Rightarrow> string" where
  "url_QueryEscape s = concat (map escape_char s)"

text \<open>\<^verbatim>\<open>r.URL.Query()\<close> and \<^verbatim>\<open>url.Values.Get\<close>: the first value of the key, or the empty string.\<close>

type_synonym Values = "(string \<times> string) list"

definition Values_Get :: "Values \<Rightarrow> string \<Rightarrow> string" where
  "Values_Get query key = (case map_of query key of None \<Rightarrow> [] | Some v \<Rightarrow> v)"

subsection \<open>Data\<close>

text \<open>The context bound to a token; its Go zero value is \<open>gitHubAppStateDetails_zero\<close>.\<close>

record gitHubAppStateDetails =
  WebhookUUID :: string
  Domain :: string
  AppID :: int
  BaseURL :: string

definition gitHubAppStateDetails_zero :: gitHubAppStateDetails where
  "gitHubAppStateDetails_zero = \<lparr>WebhookUUID = [], Domain = [], AppID = 0, BaseURL = []\<rparr>"

text \<open>
  Modelled from the spec: the declaration of \<^verbatim>\<open>types.GitHubAppDomain\<close> is not among the
  sources. The spec calls it a closed enumeration of the subsystem completing the flow;
  the file names two of its values. \<open>OtherGitHubAppDomain\<close> stands for any further value of
  the type, so that the \<^verbatim>\<open>default\<close> branch of the switch in
  \<^verbatim>\<open>generateRedirectURL\<close> is kept.
\<close>

datatype GitHubAppDomain =
  ReposGitHubAppDomain | BatchesGitHubAppDomain | OtherGitHubAppDomain string

record GitHubAppResponse =
  resp_AppID :: int
  resp_Slug :: string
  resp_Name :: string
  resp_HtmlURL :: string
  resp_ClientID :: string
  resp_ClientSecret :: string
  resp_PEM :: string
  resp_WebhookSecret :: string
  resp_Permissions :: "(string \<times> string) list"
  resp_Events :: "string list"

text \<open>\<^verbatim>\<open>ghtypes.GitHubApp\<close>, with the fields this file reads or writes.\<close>

record GitHubApp =
  app_ID :: int
  app_AppID :: int
  app_Name :: string
  app_Slug :: string
  app_ClientID :: string
  app_ClientSecret :: string
  app_WebhookSecret :: string
  app_PrivateKey :: string
  app_BaseURL :: string
  app_AppURL :: string
  app_Domain :: GitHubAppDomain
  app_Logo :: string

record GitHubAppInstallation =
  inst_InstallationID :: int
  inst_AppID :: int
  inst_URL :: string
  inst_AccountLogin :: string
  inst_AccountAvatarURL :: string
  inst_AccountURL :: string
  inst_AccountType :: string

text \<open>
  What the handlers read from a \<^verbatim>\<open>*url.URL\<close>: its scheme, its host, and the text
  \<^verbatim>\<open>String()\<close> gives back.
\<close>

record URL =
  url_Scheme :: string
  url_Host :: string
  url_String :: string

type_synonym UUID = "byte list"

record Webhook =
  hook_UUID :: UUID
  hook_Name :: string
  hook_Secret :: string

text \<open>The installation as GitHub reports it, read through the nil-safe getters of go-github.\<close>

record RemoteInstallation =
  remote_HTMLURL :: string
  remote_AccountLogin :: string
  remote_AccountAvatarURL :: string
  remote_AccountHTMLURL :: string
  remote_AccountType :: string

record Request =
  req_Method :: string
  req_URL :: string

record Response =
  StatusCode :: int
  Body :: string

datatype Authenticator = GitHubAppAuthenticator int string

subsection \<open>The collaborators\<close>

text \<open>
  Everything the file calls but does not define is a field of the environment: the random
  source, encoding/json, the helpers of the package that live in other files
  (\<^verbatim>\<open>parseDomain\<close>, \<^verbatim>\<open>MarshalGitHubAppID\<close>, \<^verbatim>\<open>UnmarshalGitHubAppID\<close>), net/url parsing,
  github.com/google/uuid, the HTTP client, the database stores and the GitHub client. A
  handler makes each of these calls at most once with a given argument, so a function from
  the argument to the outcome describes one request; two requests may run in two
  different environments.
\<close>

record env =
  rand_ReadFull :: "nat \<Rightarrow> error + byte list"
  json_Marshal :: "gitHubAppStateDetails \<Rightarrow> error + string"
  json_Unmarshal :: "string \<Rightarrow> error + gitHubAppStateDetails"
  json_Decode :: "string \<Rightarrow> error + GitHubAppResponse"
  json_Encode :: "string \<Rightarrow> string \<Rightarrow> error + string"
  parseDomain :: "string option \<Rightarrow> error + GitHubAppDomain"
  MarshalGitHubAppID :: "int \<Rightarrow> string"
  UnmarshalGitHubAppID :: "string \<Rightarrow> error + int"
  fmt_pointer :: "GitHubAppDomain \<Rightarrow> string"
  uuid_Parse :: "string \<Rightarrow> error + UUID"
  uuid_String :: "UUID \<Rightarrow> string"
  url_Parse :: "string \<Rightarrow> error + URL"
  url_JoinPath :: "string \<Rightarrow> string list \<Rightarrow> error + string"
  github_APIRoot :: "URL \<Rightarrow> URL"
  MockCreateGitHubApp :: "(string \<Rightarrow> GitHubAppDomain \<Rightarrow> error + GitHubApp) option"
  http_NewRequest :: "string \<Rightarrow> string \<Rightarrow> error + Request"
  httpClient_Do :: "Request \<Rightarrow> error + Response"
  GitHubApps_Create :: "GitHubApp \<Rightarrow> error + int"
  GitHubApps_GetByID :: "int \<Rightarrow> error + GitHubApp"
  GitHubApps_Install :: "GitHubAppInstallation \<Rightarrow> error + GitHubAppInstallation"
  Webhooks_GetByUUID :: "UUID \<Rightarrow> error + Webhook"
  Webhooks_Update :: "Webhook \<Rightarrow> error + Webhook"
  CreateWebhook :: "string \<Rightarrow> string \<Rightarrow> error + Webhook"
  NewGitHubAppAuthenticator :: "int \<Rightarrow> string \<Rightarrow> error + Authenticator"
  GetAppInstallation :: "URL \<Rightarrow> Authenticator \<Rightarrow> int \<Rightarrow> error + RemoteInstallation"

subsection \<open>The token store and the effects of a request\<close>

text \<open>
  What a request does to the outside is recorded, in order, next to the store: every call
  on the cache, on a database store, on GitHub, and each sleep.
\<close>

datatype event =
    CacheGet string
  | CacheSet string string
  | CacheDelete string
  | HTTPDo Request
  | DBCreateApp GitHubApp
  | DBGetAppByID int
  | DBInstall GitHubAppInstallation
  | DBGetWebhookByUUID UUID
  | DBUpdateWebhook Webhook
  | DBCreateWebhook string string
  | GitHubGetAppInstallation int
  | Sleep nat

record world =
  cache :: "string \<rightharpoonup> string"
  effects :: "event list"

definition emit :: "event \<Rightarrow> world \<Rightarrow> world" where
  "emit e w = w\<lparr>effects := effects w @ [e]\<rparr>"

text \<open>
  Modelled from the spec: \<^verbatim>\<open>rcache.Cache\<close> (internal/rcache) is not among the sources.
  The spec's Token Store is a key to value cache with a time-to-live per entry,
  supporting set, get and delete; an entry that has expired is no longer there.
\<close>

definition cache_Get :: "world \<Rightarrow> string \<Rightarrow> string option \<times> world" where
  "cache_Get w key = (cache w key, emit (CacheGet key) w)"

definition cache_Set :: "world \<Rightarrow> string \<Rightarrow> string \<Rightarrow> world" where
  "cache_Set w key v = emit (CacheSet key v) (w\<lparr>cache := (cache w)(key \<mapsto> v)\<rparr>)"

definition cache_Delete :: "world \<Rightarrow> string \<Rightarrow> world" where
  "cache_Delete w key = emit (CacheDelete key) (w\<lparr>cache := (cache w)(key := None)\<rparr>)"

definition cache_expire :: "string \<Rightarrow> world \<Rightarrow> world" where
  "cache_expire key w = w\<lparr>cache := (cache w)(key := None)\<rparr>"

text \<open>
  How a handler ends: \<^verbatim>\<open>http.Error(w, msg, code)\<close>, \<^verbatim>\<open>http.Redirect(w, r, url, code)\<close>,
  a body written with the implicit status 200, or a panic.
\<close>

datatype panic = NilPointerDereference

datatype response =
    HttpError nat string
  | HttpRedirect nat string
  | HttpOK string
  | HandlerPanic panic

subsection \<open>RandomState\<close>

definition RandomState :: "env \<Rightarrow> nat \<Rightarrow> error + string" where
  "RandomState env n =
     (case rand_ReadFull env n of
        Inl err \<Rightarrow> Inl err
      | Inr data \<Rightarrow> Inr (hex_EncodeToString (sha256_Sum data)))"

subsection \<open>generateRedirectURL\<close>

text \<open>
  The pointer arguments are options, \<open>None\<close> for \<^verbatim>\<open>nil\<close>. Dereferencing a \<^verbatim>\<open>nil\<close> pointer
  panics; that is the \<open>Inl\<close> result.
\<close>

definition generateRedirectURL ::
  "env \<Rightarrow> string option \<Rightarrow> int option \<Rightarrow> int option \<Rightarrow> string option \<Rightarrow> error option
     \<Rightarrow> panic + string" where
  "generateRedirectURL env domain installationID appID appName creationErr =
     (case (domain, creationErr) of
        (None, Some err) \<Rightarrow>
          Inr (''/site-admin/github-apps?success=false&error='' @ url_QueryEscape err)
      | _ \<Rightarrow>
        (case parseDomain env domain of
           Inl err \<Rightarrow>
             (case domain of
                None \<Rightarrow> Inl NilPointerDereference
              | Some d \<Rightarrow>
                  Inr (''/site-admin/github-apps?success=false&error=''
                         @ url_QueryEscape (''invalid domain: '' @ d)))
         | Inr parsedDomain \<Rightarrow>
             (case parsedDomain of
                ReposGitHubAppDomain \<Rightarrow>
                  (case creationErr of
                     Some err \<Rightarrow>
                       Inr (''/site-admin/github-apps?success=false&error='' @ url_QueryEscape err)
                   | None \<Rightarrow>
                       (case (installationID, appID) of
                          (Some i, Some a) \<Rightarrow>
                            Inr (''/site-admin/github-apps/'' @ MarshalGitHubAppID env a
                                   @ ''?installation_id='' @ strconv_Itoa i)
                        | _ \<Rightarrow>
                            Inr (''/site-admin/github-apps?success=false&error=''
                                   @ url_QueryEscape ''missing installation ID or app ID'')))
              | BatchesGitHubAppDomain \<Rightarrow>
                  (case creationErr of
                     Some err \<Rightarrow>
                       Inr (''/site-admin/batch-changes?success=false&error='' @ url_QueryEscape err)
                   | None \<Rightarrow>
                       (case appName of
                          None \<Rightarrow> Inr ''/site-admin/batch-changes?success=true''
                        | Some n \<Rightarrow> Inr (''/site-admin/batch-changes?success=true&app_name='' @ n)))
              | OtherGitHubAppDomain x \<Rightarrow>
                  Inr (''/site-admin/github-apps?success=false&error=''
                         @ url_QueryEscape (''unsupported github apps domain: ''
                                              @ fmt_pointer env parsedDomain)))))"

text \<open>\<^verbatim>\<open>http.Redirect(w, r, generateRedirectURL(...), code)\<close>: a panic in the argument ends the handler.\<close>

definition http_Redirect :: "panic + string \<Rightarrow> nat \<Rightarrow> response" where
  "http_Redirect redirectURL code =
     (case redirectURL of Inl p \<Rightarrow> HandlerPanic p | Inr u \<Rightarrow> HttpRedirect code u)"

subsection \<open>createGitHubApp\<close>

definition createGitHubApp ::
  "env \<Rightarrow> world \<Rightarrow> string \<Rightarrow> GitHubAppDomain \<Rightarrow> (error + GitHubApp) \<times> world" where
  "createGitHubApp env w conversionURL domain =
     (case MockCreateGitHubApp env of
        Some mock \<Rightarrow> (mock conversionURL domain, w)
      | None \<Rightarrow>
        (case http_NewRequest env ''POST'' conversionURL of
           Inl err \<Rightarrow> (Inl err, w)
         | Inr r \<Rightarrow>
           (let w1 = emit (HTTPDo r) w in
            case httpClient_Do env r of
              Inl err \<Rightarrow> (Inl err, w1)
            | Inr resp \<Rightarrow>
                if StatusCode resp \<noteq> 201
                then (Inl (''expected 201 statusCode, got: '' @ strconv_Itoa (StatusCode resp)), w1)
                else
                  (case json_Decode env (Body resp) of
                     Inl err \<Rightarrow> (Inl err, w1)
                   | Inr response \<Rightarrow>
                     (case url_Parse env (resp_HtmlURL response) of
                        Inl err \<Rightarrow> (Inl err, w1)
                      | Inr htmlURL \<Rightarrow>
                          (Inr \<lparr>app_ID = 0,
                                app_AppID = resp_AppID response,
                                app_Name = resp_Name response,
                                app_Slug = resp_Slug response,
                                app_ClientID = resp_ClientID response,
                                app_ClientSecret = resp_ClientSecret response,
                                app_WebhookSecret = resp_WebhookSecret response,
                                app_PrivateKey = resp_PEM response,
                                app_BaseURL = url_Scheme htmlURL @ ''://'' @ url_Host htmlURL,
                                app_AppURL = url_String htmlURL,
                                app_Domain = domain,
                                app_Logo = url_Scheme htmlURL @ ''://'' @ url_Host htmlURL
                                             @ ''/identicons/app/app/'' @ resp_Slug response\<rparr>,
                           w1))))))"

subsection \<open>The handlers\<close>

definition stateHandler :: "env \<Rightarrow> world \<Rightarrow> Values \<Rightarrow> response \<times> world" where
  "stateHandler env w query =
     (case RandomState env 128 of
        Inl err \<Rightarrow>
          (HttpError 500 (''Unexpected error when generating state parameter: '' @ err), w)
      | Inr s \<Rightarrow>
        (let gqlID = Values_Get query ''id'';
             domain = Values_Get query ''domain'';
             baseURL = Values_Get query ''baseURL''
         in if gqlID = [] then
              (case json_Marshal env gitHubAppStateDetails_zero of
                 Inl err \<Rightarrow>
                   (HttpError 500 (''Unexpected error when marshalling state: '' @ err), w)
               | Inr stateDetails \<Rightarrow> (HttpOK s, cache_Set w s stateDetails))
            else
              (case UnmarshalGitHubAppID env gqlID of
                 Inl err \<Rightarrow>
                   (HttpError 400 (''Unexpected error while unmarshalling App ID: '' @ err), w)
               | Inr id64 \<Rightarrow>
                 (case json_Marshal env
                         \<lparr>WebhookUUID = [], Domain = domain, AppID = id64, BaseURL = baseURL\<rparr> of
                    Inl err \<Rightarrow>
                      (HttpError 500 (''Unexpected error when marshalling state: '' @ err), w)
                  | Inr stateDetails \<Rightarrow> (HttpOK s, cache_Set w s stateDetails)))))"

text \<open>
  The second part of \<^verbatim>\<open>newAppStateHandler\<close>, from the call of \<^verbatim>\<open>RandomState\<close> on, once
  \<^verbatim>\<open>webhookUUID\<close> is known.
\<close>

definition newAppState_issue ::
  "env \<Rightarrow> world \<Rightarrow> string \<Rightarrow> string \<Rightarrow> string \<Rightarrow> response \<times> world" where
  "newAppState_issue env w webhookUUID domain baseURL =
     (case RandomState env 128 of
        Inl err \<Rightarrow>
          (HttpError 500 (''Unexpected error when generating state parameter: '' @ err), w)
      | Inr s \<Rightarrow>
        (case json_Marshal env
                \<lparr>WebhookUUID = webhookUUID, Domain = domain, AppID = 0, BaseURL = baseURL\<rparr> of
           Inl err \<Rightarrow>
             (HttpError 500 (''Unexpected error when marshalling state: '' @ err), w)
         | Inr stateDetails \<Rightarrow>
           (let w1 = cache_Set w s stateDetails in
            case json_Encode env s webhookUUID of
              Inl err \<Rightarrow>
                (HttpError 500 (''Unexpected error while writing response: '' @ err), w1)
            | Inr body \<Rightarrow> (HttpOK body, w1))))"

definition newAppStateHandler :: "env \<Rightarrow> world \<Rightarrow> Values \<Rightarrow> response \<times> world" where
  "newAppStateHandler env w query =
     (let webhookURN = Values_Get query ''webhookURN'';
          appName = Values_Get query ''appName'';
          domain = Values_Get query ''domain'';
          baseURL = Values_Get query ''baseURL''
      in if webhookURN \<noteq> [] then
           (let w1 = emit (DBCreateWebhook appName webhookURN) w in
            case CreateWebhook env appName webhookURN of
              Inl err \<Rightarrow>
                (HttpError 500 (''Unexpected error while setting up webhook endpoint: '' @ err), w1)
            | Inr hook \<Rightarrow>
                newAppState_issue env w1 (uuid_String env (hook_UUID hook)) domain baseURL)
         else newAppState_issue env w [] domain baseURL)"

text \<open>
  \<^verbatim>\<open>redirectHandler\<close> in two parts. \<open>redirect_convert\<close> is the handler from line 267 on:
  what it does with the context \<open>stateDetails\<close> once the token has been looked up,
  deserialized and deleted.
\<close>

definition redirect_convert ::
  "env \<Rightarrow> world \<Rightarrow> string \<Rightarrow> gitHubAppStateDetails \<Rightarrow> response \<times> world" where
  "redirect_convert env w code stateDetails =
     (case uuid_Parse env (WebhookUUID stateDetails) of
        Inl err \<Rightarrow>
          (HttpError 400 (''Bad request, could not parse webhook UUID: '' @ err), w)
      | Inr webhookUUID \<Rightarrow>
        (case url_Parse env (BaseURL stateDetails) of
           Inl err \<Rightarrow>
             (HttpError 500 (''Bad request, could not parse baseURL from state: ''
                               @ BaseURL stateDetails @ '', error: '' @ err), w)
         | Inr baseURL \<Rightarrow>
           (case url_JoinPath env (url_String (github_APIRoot env baseURL))
                   [''/app-manifests'', code, ''conversions''] of
              Inl err \<Rightarrow>
                (HttpError 500 (''Unexpected error when building manifest endpoint URL: '' @ err), w)
            | Inr u \<Rightarrow>
              (case parseDomain env (Some (Domain stateDetails)) of
                 Inl err \<Rightarrow> (HttpError 400 (''Unable to parse domain: '' @ err), w)
               | Inr domain \<Rightarrow>
                 (case createGitHubApp env w u domain of
                    (Inl err, w1) \<Rightarrow>
                      (HttpError 500 (''Unexpected error while converting github app: '' @ err), w1)
                  | (Inr app, w1) \<Rightarrow>
                    (let w2 = emit (DBCreateApp app) w1 in
                     case GitHubApps_Create env app of
                       Inl err \<Rightarrow>
                         (HttpError 500
                            (''Unexpected error while storing github app in DB: '' @ err), w2)
                     | Inr id' \<Rightarrow>
                       (let w3 = emit (DBGetWebhookByUUID webhookUUID) w2 in
                        case Webhooks_GetByUUID env webhookUUID of
                          Inl err \<Rightarrow>
                            (HttpError 500 (''Error while fetching webhook: '' @ err), w3)
                        | Inr hook0 \<Rightarrow>
                          (let hook = hook0\<lparr>hook_Secret := app_WebhookSecret app,
                                             hook_Name := app_Name app\<rparr>;
                               w4 = emit (DBUpdateWebhook hook) w3
                           in case Webhooks_Update env hook of
                                Inl err \<Rightarrow>
                                  (HttpError 500
                                     (''Error while updating webhook secret: '' @ err), w4)
                              | Inr _ \<Rightarrow>
                                (case RandomState env 128 of
                                   Inl err \<Rightarrow>
                                     (HttpError 500
                                        (''Unexpected error when creating state param: '' @ err),
                                      w4)
                                 | Inr state \<Rightarrow>
                                   (case json_Marshal env
                                           \<lparr>WebhookUUID = [], Domain = Domain stateDetails,
                                            AppID = id', BaseURL = []\<rparr> of
                                      Inl err \<Rightarrow>
                                        (HttpError 500
                                           (''unexpected error when marshalling state: '' @ err),
                                         w4)
                                    | Inr newStateDetails \<Rightarrow>
                                      (let w5 = emit (Sleep 3) (cache_Set w4 state newStateDetails);
                                           redirectURL =
                                             (case url_JoinPath env (app_AppURL app)
                                                     [''installations/new''] of
                                                Inl err \<Rightarrow> app_AppURL app
                                              | Inr j \<Rightarrow> j)
                                       in (HttpRedirect 303 (redirectURL @ ''?state='' @ state),
                                           w5))))))))))))"

definition redirectHandler :: "env \<Rightarrow> world \<Rightarrow> Values \<Rightarrow> response \<times> world" where
  "redirectHandler env w query =
     (let state = Values_Get query ''state'';
          code = Values_Get query ''code''
      in if state = [] \<or> code = [] then
           (HttpError 400 ''Bad request, code and state query params must be present'', w)
         else if length state \<noteq> 64 then
           (HttpError 400 ''Bad request, state query param is wrong length'', w)
         else
           (case cache_Get w state of
              (None, w1) \<Rightarrow>
                (HttpError 400 ''Bad request, state query param does not match'', w1)
            | (Some stateValue, w1) \<Rightarrow>
              (case json_Unmarshal env stateValue of
                 Inl err \<Rightarrow> (HttpError 400 ''Bad request, invalid state'', w1)
               | Inr stateDetails \<Rightarrow>
                   redirect_convert env (cache_Delete w1 state) code stateDetails)))"

text \<open>
  \<^verbatim>\<open>setupHandler\<close> in two parts as well. \<open>setup_install\<close> is the handler from line 380 on,
  after the token has been looked up, deserialized and deleted.
\<close>

definition setup_install ::
  "env \<Rightarrow> world \<Rightarrow> Values \<Rightarrow> string \<Rightarrow> gitHubAppStateDetails \<Rightarrow> response \<times> world" where
  "setup_install env w query instID stateDetails =
     (case strconv_Atoi instID of
        Inl err \<Rightarrow>
          (http_Redirect
             (generateRedirectURL env (Some (Domain stateDetails)) None
                (Some (AppID stateDetails)) None
                (Some ''Bad request, could not parse installation ID'')) 302, w)
      | Inr installationID \<Rightarrow>
        (let action = Values_Get query ''setup_action'' in
         if action = ''install'' then
           (let w1 = emit (DBGetAppByID (AppID stateDetails)) w in
            case GitHubApps_GetByID env (AppID stateDetails) of
              Inl err \<Rightarrow>
                (http_Redirect
                   (generateRedirectURL env (Some (Domain stateDetails)) (Some installationID)
                      (Some (AppID stateDetails)) None
                      (Some (''Unexpected error while fetching GitHub App from DB: '' @ err)))
                   302, w1)
            | Inr app \<Rightarrow>
              (case NewGitHubAppAuthenticator env (app_AppID app) (app_PrivateKey app) of
                 Inl err \<Rightarrow>
                   (http_Redirect
                      (generateRedirectURL env (Some (Domain stateDetails)) (Some installationID)
                         (Some (AppID stateDetails)) None
                         (Some (''Unexpected error while creating GitHubAppAuthenticator: ''
                                  @ err)))
                      302, w1)
               | Inr auther \<Rightarrow>
                 (case url_Parse env (app_BaseURL app) of
                    Inl err \<Rightarrow>
                      (http_Redirect
                         (generateRedirectURL env (Some (Domain stateDetails))
                            (Some installationID) (Some (AppID stateDetails)) None
                            (Some (''Unexpected error while parsing App base URL: '' @ err)))
                         302, w1)
                  | Inr baseURL \<Rightarrow>
                    (let apiURL = github_APIRoot env baseURL;
                         w2 = emit (GitHubGetAppInstallation installationID) (emit (Sleep 3) w1)
                     in case GetAppInstallation env apiURL auther installationID of
                          Inl err \<Rightarrow>
                            (http_Redirect
                               (generateRedirectURL env (Some (Domain stateDetails))
                                  (Some installationID) (Some (AppID stateDetails)) None
                                  (Some (''Unexpected error while fetching App installation details from GitHub: ''
                                           @ err)))
                               302, w2)
                        | Inr remoteInstall \<Rightarrow>
                          (let installation =
                                 \<lparr>inst_InstallationID = installationID,
                                  inst_AppID = app_ID app,
                                  inst_URL = remote_HTMLURL remoteInstall,
                                  inst_AccountLogin = remote_AccountLogin remoteInstall,
                                  inst_AccountAvatarURL = remote_AccountAvatarURL remoteInstall,
                                  inst_AccountURL = remote_AccountHTMLURL remoteInstall,
                                  inst_AccountType = remote_AccountType remoteInstall\<rparr>;
                               w3 = emit (DBInstall installation) w2
                           in case GitHubApps_Install env installation of
                                Inl err \<Rightarrow>
                                  (http_Redirect
                                     (generateRedirectURL env (Some (Domain stateDetails))
                                        (Some installationID) (Some (AppID stateDetails))
                                        (Some (app_Name app))
                                        (Some (''Unexpected error while creating GitHub App installation: ''
                                                 @ err)))
                                     302, w3)
                              | Inr _ \<Rightarrow>
                                  (http_Redirect
                                     (generateRedirectURL env (Some (Domain stateDetails))
                                        (Some installationID) (Some (app_ID app))
                                        (Some (app_Name app)) None)
                                     302, w3))))))
         else (HttpError 400 (''Bad request; unsupported setup action: '' @ action), w)))"

definition setupHandler :: "env \<Rightarrow> world \<Rightarrow> Values \<Rightarrow> response \<times> world" where
  "setupHandler env w query =
     (let state = Values_Get query ''state'';
          instID = Values_Get query ''installation_id''
      in if state = [] \<or> instID = [] then
           (HttpRedirect 302 ''/site-admin/github-apps'', w)
         else if length state \<noteq> 64 then
           (HttpError 400 ''Bad request, state query param is wrong length'', w)
         else
           (case cache_Get w state of
              (None, w1) \<Rightarrow>
                (http_Redirect
                   (generateRedirectURL env None None None None
                      (Some ''Bad request, state query param does not match'')) 302, w1)
            | (Some setupInfo, w1) \<Rightarrow>
              (case json_Unmarshal env setupInfo of
                 Inl err \<Rightarrow>
                   (http_Redirect
                      (generateRedirectURL env None None None None
                         (Some ''Bad request, invalid state'')) 302, w1)
               | Inr stateDetails \<Rightarrow>
                   setup_install env (cache_Delete w1 state) query instID stateDetails)))"

subsection \<open>A concrete environment\<close>

text \<open>
  One environment in which the model can be run: fixed bytes from the random source,
  GitHub answering 404, empty database stores. Its JSON codec writes a context the way
  encoding/json does when no string needs escaping, and reads back the three payloads
  below; \<open>parseDomain0\<close> rejects a missing or unknown tag, as the spec requires of
  \<^verbatim>\<open>parseDomain\<close>; \<open>uuid_Parse0\<close> rejects a string whose length is none of the four
  that github.com/google/uuid accepts.
\<close>

definition json_Marshal0 :: "gitHubAppStateDetails \<Rightarrow> error + string" where
  \<open>json_Marshal0 sd =
     Inr (''{''
          @ (if WebhookUUID sd = [] then [] else ''"webhookUUID":"'' @ WebhookUUID sd @ ''",'')
          @ ''"domain":"'' @ Domain sd @ ''"''
          @ (if AppID sd = 0 then [] else '',"app_id":'' @ strconv_Itoa (AppID sd))
          @ (if BaseURL sd = [] then [] else '',"base_url":"'' @ BaseURL sd @ ''"'')
          @ ''}'')\<close>

definition ctx_repos7 :: gitHubAppStateDetails where
  "ctx_repos7 = \<lparr>WebhookUUID = [], Domain = ''repos'', AppID = 7, BaseURL = []\<rparr>"

definition ctx_newapp :: gitHubAppStateDetails where
  "ctx_newapp =
     \<lparr>WebhookUUID = ''123e4567-e89b-12d3-a456-426614174000'', Domain = ''repos'', AppID = 0,
      BaseURL = ''https://github.com''\<rparr>"

definition json_Unmarshal0 :: "string \<Rightarrow> error + gitHubAppStateDetails" where
  \<open>json_Unmarshal0 b =
     (if b = ''{"domain":""}'' then Inr gitHubAppStateDetails_zero
      else if b = ''{"domain":"repos","app_id":7}'' then Inr ctx_repos7
      else if b = ''{"webhookUUID":"123e4567-e89b-12d3-a456-426614174000","domain":"repos","base_url":"https://github.com"}''
        then Inr ctx_newapp
      else Inl ''invalid character'')\<close>

definition parseDomain0 :: "string option \<Rightarrow> error + GitHubAppDomain" where
  "parseDomain0 s =
     (case s of
        None \<Rightarrow> Inl ''empty domain''
      | Some d \<Rightarrow>
          if d = ''repos'' then Inr ReposGitHubAppDomain
          else if d = ''batches'' then Inr BatchesGitHubAppDomain
          else Inl (''unknown domain: '' @ d))"

definition uuid_Parse0 :: "string \<Rightarrow> error + UUID" where
  "uuid_Parse0 s =
     (if length s \<in> {32, 36, 38, 45} then Inr (replicate 16 0)
      else Inl (''invalid UUID length: '' @ strconv_Itoa (int (length s))))"

definition env0 :: env where
  \<open>env0 =
     \<lparr>rand_ReadFull = (\<lambda>n. Inr (replicate n 0x2a)),
      json_Marshal = json_Marshal0,
      json_Unmarshal = json_Unmarshal0,
      json_Decode = (\<lambda>b. Inl ''unexpected end of JSON input''),
      json_Encode = (\<lambda>s u. Inr (''{"state":"'' @ s @ ''"}'')),
      parseDomain = parseDomain0,
      MarshalGitHubAppID = (\<lambda>i. ''GitHubApp:'' @ strconv_Itoa i),
      UnmarshalGitHubAppID = strconv_Atoi,
      fmt_pointer = (\<lambda>d. ''0xc000012345''),
      uuid_Parse = uuid_Parse0,
      uuid_String = (\<lambda>u. ''00000000-0000-0000-0000-000000000000''),
      url_Parse = (\<lambda>s. Inr \<lparr>url_Scheme = ''https'', url_Host = ''github.com'', url_String = s\<rparr>),
      url_JoinPath =
        (\<lambda>b es. Inr (b @ concat (map (\<lambda>e. if take 1 e = ''/'' then e else CHR ''/'' # e) es))),
      github_APIRoot =
        (\<lambda>u. \<lparr>url_Scheme = ''https'', url_Host = ''api.github.com'',
               url_String = ''https://api.github.com''\<rparr>),
      MockCreateGitHubApp = None,
      http_NewRequest = (\<lambda>m u. Inr \<lparr>req_Method = m, req_URL = u\<rparr>),
      httpClient_Do = (\<lambda>r. Inr \<lparr>StatusCode = 404, Body = ''Not Found''\<rparr>),
      GitHubApps_Create = (\<lambda>a. Inr 1),
      GitHubApps_GetByID = (\<lambda>i. Inl ''github app not found''),
      GitHubApps_Install = (\<lambda>i. Inr i),
      Webhooks_GetByUUID = (\<lambda>u. Inl ''webhook not found''),
      Webhooks_Update = (\<lambda>h. Inr h),
      CreateWebhook =
        (\<lambda>n u. Inr \<lparr>hook_UUID = replicate 16 0, hook_Name = n, hook_Secret = []\<rparr>),
      NewGitHubAppAuthenticator = (\<lambda>i k. Inr (GitHubAppAuthenticator i k)),
      GetAppInstallation = (\<lambda>u a i. Inl ''installation not found'')\<rparr>\<close>

definition env_no_entropy :: env where
  "env_no_entropy = env0\<lparr>rand_ReadFull := (\<lambda>n. Inl ''unexpected EOF'')\<rparr>"

definition world0 :: world where
  "world0 = \<lparr>cache = Map.empty, effects = []\<rparr>"

text \<open>
  A string of 64 characters to stand for a token, worlds whose cache holds one entry
  under it, and requests presenting it.
\<close>

definition state0 :: string where
  "state0 = replicate 64 (CHR ''a'')"

definition world_repos7 :: world where
  \<open>world_repos7 = \<lparr>cache = [state0 \<mapsto> ''{"domain":"repos","app_id":7}''], effects = []\<rparr>\<close>

definition world_newapp :: world where
  \<open>world_newapp =
     \<lparr>cache = [state0 \<mapsto> ''{"webhookUUID":"123e4567-e89b-12d3-a456-426614174000","domain":"repos","base_url":"https://github.com"}''],
      effects = []\<rparr>\<close>

definition world_garbage :: world where
  "world_garbage = \<lparr>cache = [state0 \<mapsto> ''not json''], effects = []\<rparr>"

definition redirect_query :: Values where
  "redirect_query = [(''state'', state0), (''code'', ''abc'')]"

definition setup_query_notanumber :: Values where
  "setup_query_notanumber =
     [(''state'', state0), (''installation_id'', ''notanumber''), (''setup_action'', ''install'')]"

definition setup_query_update :: Values where
  "setup_query_update =
     [(''state'', state0), (''installation_id'', ''42''), (''setup_action'', ''update'')]"

text \<open>
  The token \<^verbatim>\<open>RandomState\<close> makes from the bytes of \<open>env0\<close>, the world after
  \<^verbatim>\<open>/state\<close> has issued it with no id, and requests presenting it.
\<close>

definition token0 :: string where
  "token0 = hex_EncodeToString (sha256_Sum (replicate 128 0x2a))"

definition world_issued :: world where
  \<open>world_issued = cache_Set world0 token0 ''{"domain":""}''\<close>

definition token0_redirect_query :: Values where
  "token0_redirect_query = [(''state'', token0), (''code'', ''abc'')]"


text \<open>Requests whose state is too short, with and without the other parameters.\<close>

definition state_only_query :: Values where
  "state_only_query = [(''state'', ''short'')]"

definition short_query :: Values where
  "short_query = [(''state'', ''short''), (''code'', ''abc''), (''installation_id'', ''12345'')]"

section \<open>Properties\<close>

subsection \<open>Tokens\<close>

lemma length_hex_EncodeToString: "length (hex_EncodeToString bs) = 2 * length bs"
  by (induction bs) (simp_all add: hex_EncodeToString_def)

lemma length_sha256_Sum: "length (sha256_Sum msg) = 32"
  by (simp add: sha256_Sum_def be32_bytes_def split: prod.splits)




text \<open>The digest of \<^verbatim>\<open>abc\<close>, the standard one-block test message, evaluated by the kernel.\<close>

lemma sha256_Sum_abc:
  "hex_EncodeToString (sha256_Sum [0x61, 0x62, 0x63])
     = ''ba7816bf8f01cfea414140de5dae2223b00361a396177a9cb410ff61f20015ad''"
  by code_simp

lemma length_RandomState: "RandomState env n = Inr s \<Longrightarrow> length s = 64"
  by (auto simp: RandomState_def length_hex_EncodeToString length_sha256_Sum split: sum.splits)

subsection \<open>State length validation\<close>

text \<open>
  C7. A state whose length is not 64 never reaches the token store. \<^verbatim>\<open>/redirect\<close>
  answers 400 and leaves the world as it was: the cache is the same and no call on it
  has been recorded (nor any other effect). So does \<^verbatim>\<open>/setup\<close> when state and
  installation_id are both non-empty.
\<close>

theorem state_length_validated_before_store:
  assumes "length (Values_Get query ''state'') \<noteq> 64"
  shows "redirectHandler env w query =
           (HttpError 400
              (if Values_Get query ''state'' = [] \<or> Values_Get query ''code'' = []
               then ''Bad request, code and state query params must be present''
               else ''Bad request, state query param is wrong length''), w)
         \<and> (Values_Get query ''state'' \<noteq> [] \<and> Values_Get query ''installation_id'' \<noteq> [] \<longrightarrow>
              setupHandler env w query =
                (HttpError 400 ''Bad request, state query param is wrong length'', w))"
  using assms by (simp add: redirectHandler_def setupHandler_def Let_def)

theorem state_length_validated_before_store_witness:
  "length (Values_Get short_query ''state'') \<noteq> 64
   \<and> redirectHandler env0 world0 short_query =
       (HttpError 400 ''Bad request, state query param is wrong length'', world0)
   \<and> setupHandler env0 world0 short_query =
       (HttpError 400 ''Bad request, state query param is wrong length'', world0)"
  using state_length_validated_before_store [of short_query env0 world0]
  by (simp add: short_query_def Values_Get_def)

subsection \<open>The store, the effect log and the escaped messages\<close>

lemma cache_emit [simp]: "cache (emit e w) = cache w"
  by (simp add: emit_def)

lemma effects_emit [simp]: "effects (emit e w) = effects w @ [e]"
  by (simp add: emit_def)

lemma cache_Delete_cache [simp]: "cache (cache_Delete w k) = (cache w)(k := None)"
  by (simp add: cache_Delete_def)

lemma cache_Delete_effects [simp]: "effects (cache_Delete w k) = effects w @ [CacheDelete k]"
  by (simp add: cache_Delete_def)

lemma escape_does_not_match:
  "url_QueryEscape ''Bad request, state query param does not match''
     = ''Bad+request%2C+state+query+param+does+not+match''"
  by (simp add: url_QueryEscape_def escape_char_def shouldEscape_def is_alnum_def upperhex_def)

lemma escape_invalid_state:
  "url_QueryEscape ''Bad request, invalid state'' = ''Bad+request%2C+invalid+state''"
  by (simp add: url_QueryEscape_def escape_char_def shouldEscape_def is_alnum_def upperhex_def)

lemma escape_parse_installation_ID:
  "url_QueryEscape ''Bad request, could not parse installation ID''
     = ''Bad+request%2C+could+not+parse+installation+ID''"
  by (simp add: url_QueryEscape_def escape_char_def shouldEscape_def is_alnum_def upperhex_def)

lemma generateRedirectURL_no_domain:
  "generateRedirectURL env None i a n (Some err)
     = Inr (''/site-admin/github-apps?success=false&error='' @ url_QueryEscape err)"
  by (simp add: generateRedirectURL_def)

subsection \<open>Looking a token up\<close>

lemma redirectHandler_not_found:
  assumes "length t = 64" and "Values_Get q ''state'' = t" and "Values_Get q ''code'' \<noteq> []"
    and "cache w t = None"
  shows "redirectHandler env w q =
           (HttpError 400 ''Bad request, state query param does not match'', emit (CacheGet t) w)"
proof -
  from assms(1) have "t \<noteq> []" by auto
  with assms show ?thesis
    by (simp add: redirectHandler_def Let_def cache_Get_def)
qed

lemma setupHandler_not_found:
  assumes "length t = 64" and "Values_Get q ''state'' = t"
    and "Values_Get q ''installation_id'' \<noteq> []" and "cache w t = None"
  shows "setupHandler env w q =
           (HttpRedirect 302
              ''/site-admin/github-apps?success=false&error=Bad+request%2C+state+query+param+does+not+match'',
            emit (CacheGet t) w)"
proof -
  from assms(1) have "t \<noteq> []" by auto
  with assms show ?thesis
    by (simp add: setupHandler_def Let_def cache_Get_def generateRedirectURL_no_domain
        http_Redirect_def escape_does_not_match)
qed

lemma redirectHandler_found:
  assumes "length t = 64" and "Values_Get q ''state'' = t" and "Values_Get q ''code'' = code"
    and "code \<noteq> []" and "cache w t = Some v" and "json_Unmarshal env v = Inr sd"
  shows "redirectHandler env w q =
           redirect_convert env (cache_Delete (emit (CacheGet t) w) t) code sd"
proof -
  from assms(1) have "t \<noteq> []" by auto
  with assms show ?thesis
    by (simp add: redirectHandler_def Let_def cache_Get_def)
qed

lemma setupHandler_found:
  assumes "length t = 64" and "Values_Get q ''state'' = t"
    and "Values_Get q ''installation_id'' = instID" and "instID \<noteq> []"
    and "cache w t = Some v" and "json_Unmarshal env v = Inr sd"
  shows "setupHandler env w q =
           setup_install env (cache_Delete (emit (CacheGet t) w) t) q instID sd"
proof -
  from assms(1) have "t \<noteq> []" by auto
  with assms show ?thesis
    by (simp add: setupHandler_def Let_def cache_Get_def)
qed

lemma createGitHubApp_cache: "cache (snd (createGitHubApp env w u d)) = cache w"
  by (simp add: createGitHubApp_def Let_def split: option.splits sum.splits)

lemma redirect_convert_cache:
  "cache (snd (redirect_convert env w code sd)) = cache w
   \<or> (\<exists>s b. RandomState env 128 = Inr s
            \<and> cache (snd (redirect_convert env w code sd)) = (cache w)(s \<mapsto> b))"
  by (auto simp: redirect_convert_def Let_def cache_Set_def case_prod_unfold
      createGitHubApp_cache split: sum.splits)

lemma setup_install_cache: "cache (snd (setup_install env w q instID sd)) = cache w"
  by (simp add: setup_install_def Let_def split: sum.splits)

lemma redirectHandler_deletes_only_decoded:
  assumes "cache w k = Some v'" and "cache (snd (redirectHandler env w q)) k = None"
  shows "\<exists>sd. json_Unmarshal env v' = Inr sd"
proof (cases "cache w (Values_Get q ''state'')")
  case None
  with assms show ?thesis
    by (auto simp: redirectHandler_def Let_def cache_Get_def split: if_splits)
next
  case (Some stateValue)
  show ?thesis
  proof (cases "json_Unmarshal env stateValue")
    case (Inl err)
    with Some assms show ?thesis
      by (auto simp: redirectHandler_def Let_def cache_Get_def split: if_splits)
  next
    case (Inr sd)
    let ?t = "Values_Get q ''state''"
    let ?w = "cache_Delete (emit (CacheGet ?t) w) ?t"
    show ?thesis
    proof (cases "k = ?t")
      case True
      with assms(1) Some Inr show ?thesis by auto
    next
      case False
      have "cache (snd (redirect_convert env ?w (Values_Get q ''code'') sd)) k \<noteq> None"
        using redirect_convert_cache [of env ?w "Values_Get q ''code''" sd] assms(1) False
        by auto
      with Some Inr assms show ?thesis
        by (auto simp: redirectHandler_def Let_def cache_Get_def split: if_splits)
    qed
  qed
qed

lemma setupHandler_deletes_only_decoded:
  assumes "cache w k = Some v'" and "cache (snd (setupHandler env w q)) k = None"
  shows "\<exists>sd. json_Unmarshal env v' = Inr sd"
  using assms
  by (auto simp: setupHandler_def Let_def cache_Get_def setup_install_cache
      split: if_splits option.splits sum.splits)

subsection \<open>The concrete requests\<close>

lemma length_state0: "length state0 = 64"
  by (simp add: state0_def)

lemma state_of_redirect_query: "Values_Get redirect_query ''state'' = state0"
  by (simp add: redirect_query_def Values_Get_def)

lemma code_of_redirect_query: "Values_Get redirect_query ''code'' = ''abc''"
  by (simp add: redirect_query_def Values_Get_def)

lemma state_of_setup_query_update: "Values_Get setup_query_update ''state'' = state0"
  by (simp add: setup_query_update_def Values_Get_def)

lemma installation_id_of_setup_query_update:
  "Values_Get setup_query_update ''installation_id'' = ''42''"
  by (simp add: setup_query_update_def Values_Get_def)

lemma action_of_setup_query_update: "Values_Get setup_query_update ''setup_action'' = ''update''"
  by (simp add: setup_query_update_def Values_Get_def)

lemma state_of_setup_query_notanumber: "Values_Get setup_query_notanumber ''state'' = state0"
  by (simp add: setup_query_notanumber_def Values_Get_def)

lemma installation_id_of_setup_query_notanumber:
  "Values_Get setup_query_notanumber ''installation_id'' = ''notanumber''"
  by (simp add: setup_query_notanumber_def Values_Get_def)

lemma cache_world_repos7:
  \<open>cache world_repos7 state0 = Some ''{"domain":"repos","app_id":7}''\<close>
  by (simp add: world_repos7_def)

lemma json_Unmarshal0_repos7:
  \<open>json_Unmarshal0 ''{"domain":"repos","app_id":7}'' = Inr ctx_repos7\<close>
  by (simp add: json_Unmarshal0_def)

lemma json_Unmarshal0_garbage: "json_Unmarshal0 ''not json'' = Inl ''invalid character''"
  by (simp add: json_Unmarshal0_def)

subsection \<open>Single use\<close>

text \<open>
  C1. Let \<open>t\<close> be a token (64 characters), presented to \<^verbatim>\<open>/redirect\<close> with a code and to
  \<^verbatim>\<open>/setup\<close> with an installation id. In any world whose cache has no entry for \<open>t\<close>
  (never issued, expired, or consumed before), whatever else the cache holds,
  \<^verbatim>\<open>/redirect\<close> answers 400 "state query param does not match" and \<^verbatim>\<open>/setup\<close> answers
  with a 302 to the error page of the Domain Router: neither a panic nor a 5xx. When
  \<open>t\<close> is in the cache with a value that deserializes, the world a handler leaves has no
  entry for \<open>t\<close>, so presenting \<open>t\<close> again, to either handler and in any environment, is
  rejected in that way. For \<^verbatim>\<open>/redirect\<close>, which may store a new token before it returns,
  this needs the new token to differ from \<open>t\<close>: tokens are taken to be fresh. An entry
  that has expired is absent.
\<close>

theorem consume_single_use:
  assumes "length t = 64"
    and "Values_Get qr ''state'' = t" and "Values_Get qr ''code'' \<noteq> []"
    and "Values_Get qs ''state'' = t" and "Values_Get qs ''installation_id'' \<noteq> []"
  shows "(cache w t = None \<longrightarrow>
            redirectHandler env w qr =
              (HttpError 400 ''Bad request, state query param does not match'',
               emit (CacheGet t) w)
          \<and> setupHandler env w qs =
              (HttpRedirect 302
                 ''/site-admin/github-apps?success=false&error=Bad+request%2C+state+query+param+does+not+match'',
               emit (CacheGet t) w))
       \<and> (cache w t = Some v \<and> json_Unmarshal env v = Inr sd \<longrightarrow>
            (let w2 = snd (setupHandler env w qs) in
               cache w2 t = None
             \<and> redirectHandler env' w2 qr =
                 (HttpError 400 ''Bad request, state query param does not match'',
                  emit (CacheGet t) w2)
             \<and> setupHandler env' w2 qs =
                 (HttpRedirect 302
                    ''/site-admin/github-apps?success=false&error=Bad+request%2C+state+query+param+does+not+match'',
                  emit (CacheGet t) w2)))
       \<and> (cache w t = Some v \<and> json_Unmarshal env v = Inr sd \<and> RandomState env 128 \<noteq> Inr t \<longrightarrow>
            (let w1 = snd (redirectHandler env w qr) in
               cache w1 t = None
             \<and> redirectHandler env' w1 qr =
                 (HttpError 400 ''Bad request, state query param does not match'',
                  emit (CacheGet t) w1)
             \<and> setupHandler env' w1 qs =
                 (HttpRedirect 302
                    ''/site-admin/github-apps?success=false&error=Bad+request%2C+state+query+param+does+not+match'',
                  emit (CacheGet t) w1)))
       \<and> redirectHandler env (cache_expire t w) qr =
           (HttpError 400 ''Bad request, state query param does not match'',
            emit (CacheGet t) (cache_expire t w))
       \<and> setupHandler env (cache_expire t w) qs =
           (HttpRedirect 302
              ''/site-admin/github-apps?success=false&error=Bad+request%2C+state+query+param+does+not+match'',
            emit (CacheGet t) (cache_expire t w))"
proof -
  have absent: "\<And>e u. cache u t = None \<Longrightarrow>
      redirectHandler e u qr =
        (HttpError 400 ''Bad request, state query param does not match'', emit (CacheGet t) u)
      \<and> setupHandler e u qs =
        (HttpRedirect 302
           ''/site-admin/github-apps?success=false&error=Bad+request%2C+state+query+param+does+not+match'',
         emit (CacheGet t) u)"
    using assms by (simp add: redirectHandler_not_found setupHandler_not_found)
  have consumed_setup: "cache (snd (setupHandler env w qs)) t = None"
    if "cache w t = Some v" and "json_Unmarshal env v = Inr sd"
    using that assms setupHandler_found [of t qs "Values_Get qs ''installation_id''" w v env sd]
    by (simp add: setup_install_cache)
  have consumed_redirect: "cache (snd (redirectHandler env w qr)) t = None"
    if "cache w t = Some v" and "json_Unmarshal env v = Inr sd"
      and "RandomState env 128 \<noteq> Inr t"
  proof -
    let ?w = "cache_Delete (emit (CacheGet t) w) t"
    have "redirectHandler env w qr = redirect_convert env ?w (Values_Get qr ''code'') sd"
      using that assms by (simp add: redirectHandler_found)
    moreover have "cache (snd (redirect_convert env ?w (Values_Get qr ''code'') sd)) t = None"
      using redirect_convert_cache [of env ?w "Values_Get qr ''code''" sd] that(3)
      by auto
    ultimately show ?thesis by simp
  qed
  have expired: "cache (cache_expire t w) t = None"
    by (simp add: cache_expire_def)
  show ?thesis
    using absent [OF expired] absent consumed_setup consumed_redirect by (simp add: Let_def)
qed

theorem consume_single_use_witness:
  \<open>length state0 = 64
   \<and> cache world0 state0 = None
   \<and> redirectHandler env0 world0 redirect_query =
       (HttpError 400 ''Bad request, state query param does not match'',
        emit (CacheGet state0) world0)
   \<and> cache world_repos7 state0 = Some ''{"domain":"repos","app_id":7}''
   \<and> json_Unmarshal env_no_entropy ''{"domain":"repos","app_id":7}'' = Inr ctx_repos7
   \<and> RandomState env_no_entropy 128 \<noteq> Inr state0
   \<and> cache (snd (redirectHandler env_no_entropy world_repos7 redirect_query)) state0 = None
   \<and> redirectHandler env0 (snd (redirectHandler env_no_entropy world_repos7 redirect_query))
         redirect_query =
       (HttpError 400 ''Bad request, state query param does not match'',
        emit (CacheGet state0) (snd (redirectHandler env_no_entropy world_repos7 redirect_query)))
   \<and> setupHandler env0 (snd (setupHandler env_no_entropy world_repos7 setup_query_update))
         setup_query_update =
       (HttpRedirect 302
          ''/site-admin/github-apps?success=false&error=Bad+request%2C+state+query+param+does+not+match'',
        emit (CacheGet state0) (snd (setupHandler env_no_entropy world_repos7 setup_query_update)))\<close>
proof -
  have h1: "length state0 = 64" by (rule length_state0)
  have h2: "Values_Get redirect_query ''code'' \<noteq> []" by (simp add: code_of_redirect_query)
  have h3: "Values_Get setup_query_update ''installation_id'' \<noteq> []"
    by (simp add: installation_id_of_setup_query_update)
  have h4: "cache world0 state0 = None" by (simp add: world0_def)
  have h5: \<open>json_Unmarshal env_no_entropy ''{"domain":"repos","app_id":7}'' = Inr ctx_repos7\<close>
    by (simp add: env_no_entropy_def env0_def json_Unmarshal0_repos7)
  have h6: "RandomState env_no_entropy 128 \<noteq> Inr state0"
    by (simp add: env_no_entropy_def RandomState_def)
  note a = consume_single_use [OF h1 state_of_redirect_query h2 state_of_setup_query_update h3]
  show ?thesis
    using a [where w = world0 and env = env0]
      a [where w = world_repos7 and env = env_no_entropy and sd = ctx_repos7 and env' = env0]
      h1 h4 h5 h6 cache_world_repos7
    by (simp add: Let_def)
qed

subsection \<open>A payload that does not deserialize\<close>

text \<open>
  C2. If the bytes stored under the presented token do not deserialize, \<^verbatim>\<open>/redirect\<close>
  answers 400 "invalid state" and \<^verbatim>\<open>/setup\<close> redirects to the error page; the only
  effect is the lookup, and the cache is unchanged. Conversely, for every request, an
  entry that is in the cache before a handler runs and gone afterwards held a value that
  deserializes: the token is deleted only after deserialization has succeeded.
\<close>

theorem undecodable_state_not_deleted:
  assumes "length t = 64"
    and "Values_Get qr ''state'' = t" and "Values_Get qr ''code'' \<noteq> []"
    and "Values_Get qs ''state'' = t" and "Values_Get qs ''installation_id'' \<noteq> []"
    and "cache w t = Some v" and "json_Unmarshal env v = Inl err"
  shows "redirectHandler env w qr =
           (HttpError 400 ''Bad request, invalid state'', emit (CacheGet t) w)
       \<and> setupHandler env w qs =
           (HttpRedirect 302
              ''/site-admin/github-apps?success=false&error=Bad+request%2C+invalid+state'',
            emit (CacheGet t) w)
       \<and> cache (emit (CacheGet t) w) = cache w
       \<and> (\<forall>q k v'. cache w k = Some v' \<and> cache (snd (redirectHandler env w q)) k = None
              \<longrightarrow> (\<exists>sd. json_Unmarshal env v' = Inr sd))
       \<and> (\<forall>q k v'. cache w k = Some v' \<and> cache (snd (setupHandler env w q)) k = None
              \<longrightarrow> (\<exists>sd. json_Unmarshal env v' = Inr sd))"
proof -
  from assms(1) have ne: "t \<noteq> []" by auto
  have "redirectHandler env w qr =
          (HttpError 400 ''Bad request, invalid state'', emit (CacheGet t) w)"
    using assms ne by (simp add: redirectHandler_def Let_def cache_Get_def)
  moreover have "setupHandler env w qs =
      (HttpRedirect 302
         ''/site-admin/github-apps?success=false&error=Bad+request%2C+invalid+state'',
       emit (CacheGet t) w)"
    using assms ne
    by (simp add: setupHandler_def Let_def cache_Get_def generateRedirectURL_no_domain
        http_Redirect_def escape_invalid_state)
  ultimately show ?thesis
    using redirectHandler_deletes_only_decoded [of w _ _ env]
      setupHandler_deletes_only_decoded [of w _ _ env]
    by simp blast
qed

theorem undecodable_state_not_deleted_witness:
  "length state0 = 64
   \<and> cache world_garbage state0 = Some ''not json''
   \<and> json_Unmarshal env0 ''not json'' = Inl ''invalid character''
   \<and> redirectHandler env0 world_garbage redirect_query =
       (HttpError 400 ''Bad request, invalid state'', emit (CacheGet state0) world_garbage)
   \<and> setupHandler env0 world_garbage setup_query_update =
       (HttpRedirect 302
          ''/site-admin/github-apps?success=false&error=Bad+request%2C+invalid+state'',
        emit (CacheGet state0) world_garbage)
   \<and> cache (emit (CacheGet state0) world_garbage) state0 = Some ''not json''"
proof -
  have h2: "Values_Get redirect_query ''code'' \<noteq> []" by (simp add: code_of_redirect_query)
  have h3: "Values_Get setup_query_update ''installation_id'' \<noteq> []"
    by (simp add: installation_id_of_setup_query_update)
  have h4: "cache world_garbage state0 = Some ''not json''" by (simp add: world_garbage_def)
  have h5: "json_Unmarshal env0 ''not json'' = Inl ''invalid character''"
    by (simp add: env0_def json_Unmarshal0_garbage)
  show ?thesis
    using undecodable_state_not_deleted [OF length_state0 state_of_redirect_query h2
        state_of_setup_query_update h3 h4 h5] h4 h5 length_state0
    by simp
qed

subsection \<open>An installation id that is not a number\<close>

text \<open>
  C8. On \<^verbatim>\<open>/setup\<close>, with a 64-character state that resolves to a context of the
  repository domain and an installation_id that \<^verbatim>\<open>strconv.Atoi\<close> rejects, the handler
  answers 302 to \<^verbatim>\<open>/site-admin/github-apps\<close> with \<^verbatim>\<open>success=false\<close> and the message
  "Bad request, could not parse installation ID". Its only effects are the lookup and the
  deletion of the token: the app is not fetched from the database.
\<close>

theorem setup_unparsable_installation_id:
  assumes "length t = 64"
    and "Values_Get q ''state'' = t" and "Values_Get q ''installation_id'' = instID"
    and "instID \<noteq> []" and "strconv_Atoi instID = Inl e"
    and "cache w t = Some v" and "json_Unmarshal env v = Inr sd"
    and "parseDomain env (Some (Domain sd)) = Inr ReposGitHubAppDomain"
  shows "setupHandler env w q =
           (HttpRedirect 302
              ''/site-admin/github-apps?success=false&error=Bad+request%2C+could+not+parse+installation+ID'',
            cache_Delete (emit (CacheGet t) w) t)
       \<and> effects (cache_Delete (emit (CacheGet t) w) t) = effects w @ [CacheGet t, CacheDelete t]"
proof -
  have "setupHandler env w q = setup_install env (cache_Delete (emit (CacheGet t) w) t) q instID sd"
    using assms by (simp add: setupHandler_found)
  then show ?thesis
    using assms(5,8)
    by (simp add: setup_install_def generateRedirectURL_def http_Redirect_def
        escape_parse_installation_ID)
qed

theorem setup_unparsable_installation_id_witness:
  \<open>length state0 = 64
   \<and> strconv_Atoi ''notanumber'' = Inl ''invalid syntax''
   \<and> cache world_repos7 state0 = Some ''{"domain":"repos","app_id":7}''
   \<and> json_Unmarshal env0 ''{"domain":"repos","app_id":7}'' = Inr ctx_repos7
   \<and> parseDomain env0 (Some (Domain ctx_repos7)) = Inr ReposGitHubAppDomain
   \<and> setupHandler env0 world_repos7 setup_query_notanumber =
       (HttpRedirect 302
          ''/site-admin/github-apps?success=false&error=Bad+request%2C+could+not+parse+installation+ID'',
        cache_Delete (emit (CacheGet state0) world_repos7) state0)
   \<and> effects (cache_Delete (emit (CacheGet state0) world_repos7) state0)
       = [CacheGet state0, CacheDelete state0]\<close>
proof -
  have h1: "''notanumber'' \<noteq> []" by simp
  have h2: "strconv_Atoi ''notanumber'' = Inl ''invalid syntax''"
    by (simp add: strconv_Atoi_def is_digit_def)
  have h3: \<open>json_Unmarshal env0 ''{"domain":"repos","app_id":7}'' = Inr ctx_repos7\<close>
    by (simp add: env0_def json_Unmarshal0_repos7)
  have h4: "parseDomain env0 (Some (Domain ctx_repos7)) = Inr ReposGitHubAppDomain"
    by (simp add: env0_def parseDomain0_def ctx_repos7_def)
  have h5: "effects world_repos7 = []" by (simp add: world_repos7_def)
  show ?thesis
    using setup_unparsable_installation_id [OF length_state0 state_of_setup_query_notanumber
        installation_id_of_setup_query_notanumber h1 h2 cache_world_repos7 h3 h4]
      length_state0 h2 h3 h4 h5 cache_world_repos7
    by simp
qed

subsection \<open>An unsupported setup action\<close>

text \<open>
  C10. On \<^verbatim>\<open>/setup\<close> the token is deleted as soon as its context has deserialized,
  before installation_id is parsed and before setup_action is read. With a resolvable
  64-character state, an installation_id that parses and a setup_action other than
  "install", the handler answers 400 "unsupported setup action", the token is gone, and
  the same request sent again is rejected as a state mismatch.
\<close>

theorem setup_unsupported_action_consumes_token:
  assumes "length t = 64"
    and "Values_Get q ''state'' = t" and "Values_Get q ''installation_id'' = instID"
    and "instID \<noteq> []" and "strconv_Atoi instID = Inr n"
    and "Values_Get q ''setup_action'' \<noteq> ''install''"
    and "cache w t = Some v" and "json_Unmarshal env v = Inr sd"
  shows "setupHandler env w q =
           (HttpError 400
              (''Bad request; unsupported setup action: '' @ Values_Get q ''setup_action''),
            cache_Delete (emit (CacheGet t) w) t)
       \<and> cache (cache_Delete (emit (CacheGet t) w) t) t = None
       \<and> setupHandler env' (cache_Delete (emit (CacheGet t) w) t) q =
           (HttpRedirect 302
              ''/site-admin/github-apps?success=false&error=Bad+request%2C+state+query+param+does+not+match'',
            emit (CacheGet t) (cache_Delete (emit (CacheGet t) w) t))"
proof -
  let ?w = "cache_Delete (emit (CacheGet t) w) t"
  have "setupHandler env w q = setup_install env ?w q instID sd"
    using assms by (simp add: setupHandler_found)
  then have "setupHandler env w q =
      (HttpError 400 (''Bad request; unsupported setup action: '' @ Values_Get q ''setup_action''), ?w)"
    using assms(5,6) by (simp add: setup_install_def Let_def)
  moreover have gone: "cache ?w t = None"
    by simp
  moreover have "setupHandler env' ?w q =
      (HttpRedirect 302
         ''/site-admin/github-apps?success=false&error=Bad+request%2C+state+query+param+does+not+match'',
       emit (CacheGet t) ?w)"
    using assms(1-4) gone by (intro setupHandler_not_found) simp_all
  ultimately show ?thesis by simp
qed

theorem setup_unsupported_action_consumes_token_witness:
  \<open>length state0 = 64
   \<and> strconv_Atoi ''42'' = Inr 42
   \<and> Values_Get setup_query_update ''setup_action'' \<noteq> ''install''
   \<and> cache world_repos7 state0 = Some ''{"domain":"repos","app_id":7}''
   \<and> json_Unmarshal env0 ''{"domain":"repos","app_id":7}'' = Inr ctx_repos7
   \<and> setupHandler env0 world_repos7 setup_query_update =
       (HttpError 400 ''Bad request; unsupported setup action: update'',
        cache_Delete (emit (CacheGet state0) world_repos7) state0)
   \<and> setupHandler env0 (cache_Delete (emit (CacheGet state0) world_repos7) state0)
         setup_query_update =
       (HttpRedirect 302
          ''/site-admin/github-apps?success=false&error=Bad+request%2C+state+query+param+does+not+match'',
        emit (CacheGet state0) (cache_Delete (emit (CacheGet state0) world_repos7) state0))\<close>
proof -
  have h1: "''42'' \<noteq> []" by simp
  have h2: "strconv_Atoi ''42'' = Inr 42"
    by (simp add: strconv_Atoi_def is_digit_def digit_val_def)
  have h3: "Values_Get setup_query_update ''setup_action'' \<noteq> ''install''"
    by (simp add: action_of_setup_query_update)
  have h4: \<open>json_Unmarshal env0 ''{"domain":"repos","app_id":7}'' = Inr ctx_repos7\<close>
    by (simp add: env0_def json_Unmarshal0_repos7)
  show ?thesis
    using setup_unsupported_action_consumes_token [OF length_state0 state_of_setup_query_update
        installation_id_of_setup_query_update h1 h2 h3 cache_world_repos7 h4, of env0]
      length_state0 h2 h3 h4 cache_world_repos7 action_of_setup_query_update
    by simp
qed

subsection \<open>Issuing a token\<close>

lemma cache_Set_cache [simp]: "cache (cache_Set w k v) = (cache w)(k \<mapsto> v)"
  by (simp add: cache_Set_def)

lemma cache_Set_effects [simp]: "effects (cache_Set w k v) = effects w @ [CacheSet k v]"
  by (simp add: cache_Set_def)


lemma length_token: "length (hex_EncodeToString (sha256_Sum data)) = 64"
  by (simp add: length_hex_EncodeToString length_sha256_Sum)

lemma json_Marshal0_zero: \<open>json_Marshal0 gitHubAppStateDetails_zero = Inr ''{"domain":""}''\<close>
  by (simp add: json_Marshal0_def gitHubAppStateDetails_zero_def)

lemma json_Unmarshal0_zero: \<open>json_Unmarshal0 ''{"domain":""}'' = Inr gitHubAppStateDetails_zero\<close>
  by (simp add: json_Unmarshal0_def)

lemma state_of_token0_redirect_query: "Values_Get token0_redirect_query ''state'' = token0"
  by (simp add: token0_redirect_query_def Values_Get_def)

lemma code_of_token0_redirect_query: "Values_Get token0_redirect_query ''code'' = ''abc''"
  by (simp add: token0_redirect_query_def Values_Get_def)





subsection \<open>The default context on /redirect\<close>

lemma stateHandler_no_id:
  assumes "Values_Get q ''id'' = []" and "stateHandler env w q = (HttpOK s, w1)"
    and "json_Marshal env gitHubAppStateDetails_zero = Inr b"
  shows "RandomState env 128 = Inr s \<and> w1 = cache_Set w s b"
  using assms by (auto simp: stateHandler_def Let_def split: sum.splits)

lemma uuid_Parse0_empty: "uuid_Parse0 [] = Inl ''invalid UUID length: 0''"
  by (simp add: uuid_Parse0_def strconv_Itoa_def nat_decimal.simps digit_char_def)

lemma stateHandler_env0: "stateHandler env0 world0 [] = (HttpOK token0, world_issued)"
  by (simp add: stateHandler_def RandomState_def env0_def Values_Get_def json_Marshal0_zero
      token0_def world_issued_def)

text \<open>
  C3, as the code has it. A token issued by \<^verbatim>\<open>/state\<close> with no id carries the default
  context. Presented to \<^verbatim>\<open>/redirect\<close> with a code, the context deserializes and the
  token is deleted; then the handler parses the webhook UUID of the context, which is
  the empty string, and, the empty string being no UUID, answers 400 "could not parse
  webhook UUID". The effects end with the deletion: no request is sent to the
  conversion endpoint.
\<close>

theorem default_context_rejected_at_webhook_UUID:
  assumes "Values_Get q ''id'' = []" and "stateHandler env w q = (HttpOK s, w1)"
    and "json_Marshal env gitHubAppStateDetails_zero = Inr b"
    and "json_Unmarshal env' b = Inr gitHubAppStateDetails_zero"
    and "uuid_Parse env' [] = Inl e"
    and "Values_Get q' ''state'' = s" and "Values_Get q' ''code'' \<noteq> []"
  shows "w1 = cache_Set w s b
       \<and> redirectHandler env' w1 q' =
           (HttpError 400 (''Bad request, could not parse webhook UUID: '' @ e),
            cache_Delete (emit (CacheGet s) w1) s)
       \<and> effects (cache_Delete (emit (CacheGet s) w1) s)
           = effects w @ [CacheSet s b, CacheGet s, CacheDelete s]"
proof -
  have rs: "RandomState env 128 = Inr s" and w1: "w1 = cache_Set w s b"
    using stateHandler_no_id [OF assms(1,2,3)] by simp_all
  have len: "length s = 64"
    using rs by (rule length_RandomState)
  have "cache w1 s = Some b"
    using w1 by simp
  then have "redirectHandler env' w1 q' =
      redirect_convert env' (cache_Delete (emit (CacheGet s) w1) s) (Values_Get q' ''code'')
        gitHubAppStateDetails_zero"
    using len assms(4,6,7) by (intro redirectHandler_found) simp_all
  then have "redirectHandler env' w1 q' =
      (HttpError 400 (''Bad request, could not parse webhook UUID: '' @ e),
       cache_Delete (emit (CacheGet s) w1) s)"
    using assms(5) by (simp add: redirect_convert_def gitHubAppStateDetails_zero_def)
  then show ?thesis
    using w1 by simp
qed

theorem default_context_rejected_at_webhook_UUID_witness:
  \<open>Values_Get [] ''id'' = []
   \<and> stateHandler env0 world0 [] = (HttpOK token0, world_issued)
   \<and> json_Marshal env0 gitHubAppStateDetails_zero = Inr ''{"domain":""}''
   \<and> json_Unmarshal env0 ''{"domain":""}'' = Inr gitHubAppStateDetails_zero
   \<and> uuid_Parse env0 [] = Inl ''invalid UUID length: 0''
   \<and> redirectHandler env0 world_issued token0_redirect_query =
       (HttpError 400 ''Bad request, could not parse webhook UUID: invalid UUID length: 0'',
        cache_Delete (emit (CacheGet token0) world_issued) token0)\<close>
proof -
  have h1: "Values_Get [] ''id'' = []" by (simp add: Values_Get_def)
  have h2: \<open>json_Marshal env0 gitHubAppStateDetails_zero = Inr ''{"domain":""}''\<close>
    by (simp add: env0_def json_Marshal0_zero)
  have h3: \<open>json_Unmarshal env0 ''{"domain":""}'' = Inr gitHubAppStateDetails_zero\<close>
    by (simp add: env0_def json_Unmarshal0_zero)
  have h4: "uuid_Parse env0 [] = Inl ''invalid UUID length: 0''"
    by (simp add: env0_def uuid_Parse0_empty)
  have h5: "Values_Get token0_redirect_query ''code'' \<noteq> []"
    by (simp add: code_of_token0_redirect_query)
  show ?thesis
    using default_context_rejected_at_webhook_UUID [OF h1 stateHandler_env0 h2 h3 h4
        state_of_token0_redirect_query h5] h1 h2 h3 h4 stateHandler_env0
    by simp
qed

text \<open>
  C3 as stated (the request proceeds to the manifest conversion) fails in \<open>env0\<close>: the
  token issued by \<^verbatim>\<open>/state\<close> is answered with 400, and the effects of the two requests
  are the store, the lookup and the deletion.
\<close>

theorem default_context_conversion_counterexample:
  \<open>stateHandler env0 world0 [] = (HttpOK token0, world_issued)
   \<and> redirectHandler env0 world_issued token0_redirect_query =
       (HttpError 400 ''Bad request, could not parse webhook UUID: invalid UUID length: 0'',
        cache_Delete (emit (CacheGet token0) world_issued) token0)
   \<and> effects (cache_Delete (emit (CacheGet token0) world_issued) token0)
       = [CacheSet token0 ''{"domain":""}'', CacheGet token0, CacheDelete token0]\<close>
proof -
  have \<open>cache world_issued token0 = Some ''{"domain":""}''\<close>
    by (simp add: world_issued_def)
  moreover have \<open>json_Unmarshal env0 ''{"domain":""}'' = Inr gitHubAppStateDetails_zero\<close>
    by (simp add: env0_def json_Unmarshal0_zero)
  ultimately have "redirectHandler env0 world_issued token0_redirect_query =
      redirect_convert env0 (cache_Delete (emit (CacheGet token0) world_issued) token0) ''abc''
        gitHubAppStateDetails_zero"
    using length_token [of "replicate 128 0x2a"]
    by (intro redirectHandler_found)
      (simp_all add: token0_def [symmetric] state_of_token0_redirect_query
        code_of_token0_redirect_query)
  moreover have "uuid_Parse env0 [] = Inl ''invalid UUID length: 0''"
    by (simp add: env0_def uuid_Parse0_empty)
  ultimately have "redirectHandler env0 world_issued token0_redirect_query =
      (HttpError 400 ''Bad request, could not parse webhook UUID: invalid UUID length: 0'',
       cache_Delete (emit (CacheGet token0) world_issued) token0)"
    by (simp add: redirect_convert_def gitHubAppStateDetails_zero_def)
  moreover have \<open>effects (cache_Delete (emit (CacheGet token0) world_issued) token0)
      = [CacheSet token0 ''{"domain":""}'', CacheGet token0, CacheDelete token0]\<close>
    by (simp add: world_issued_def world0_def)
  ultimately show ?thesis
    using stateHandler_env0 by simp
qed

subsection \<open>A direct installation\<close>

text \<open>
  C4, as the code has it. \<^verbatim>\<open>/setup\<close> answers 302 to \<^verbatim>\<open>/site-admin/github-apps\<close> with the
  world untouched exactly when state or installation_id is empty: one of them missing
  is enough. When both are present the state length is validated: 400 with the world
  untouched if it is not 64, and otherwise the first effect is the lookup of the state.
\<close>

theorem setup_direct_install_condition:
  "(setupHandler env w q = (HttpRedirect 302 ''/site-admin/github-apps'', w))
     = (Values_Get q ''state'' = [] \<or> Values_Get q ''installation_id'' = [])
   \<and> (Values_Get q ''state'' \<noteq> [] \<and> Values_Get q ''installation_id'' \<noteq> []
        \<and> length (Values_Get q ''state'') \<noteq> 64 \<longrightarrow>
        setupHandler env w q =
          (HttpError 400 ''Bad request, state query param is wrong length'', w))
   \<and> (Values_Get q ''state'' \<noteq> [] \<and> Values_Get q ''installation_id'' \<noteq> []
        \<and> length (Values_Get q ''state'') = 64 \<longrightarrow>
        take (Suc (length (effects w))) (effects (snd (setupHandler env w q)))
          = effects w @ [CacheGet (Values_Get q ''state'')])"
proof -
  let ?t = "Values_Get q ''state''"
  let ?i = "Values_Get q ''installation_id''"
  let ?w1 = "emit (CacheGet ?t) w"
  have direct: "setupHandler env w q = (HttpRedirect 302 ''/site-admin/github-apps'', w)"
    if "?t = [] \<or> ?i = []"
    using that by (auto simp: setupHandler_def Let_def)
  have wrong: "setupHandler env w q =
      (HttpError 400 ''Bad request, state query param is wrong length'', w)"
    if "?t \<noteq> []" and "?i \<noteq> []" and "length ?t \<noteq> 64"
    using that by (simp add: setupHandler_def Let_def)
  have looked_up: "take (Suc (length (effects w))) (effects (snd (setupHandler env w q)))
      = effects w @ [CacheGet ?t]"
    if "?t \<noteq> []" and "?i \<noteq> []" and "length ?t = 64"
  proof (cases "cache w ?t")
    case None
    then show ?thesis
      using that by (simp add: setupHandler_def Let_def cache_Get_def)
  next
    case (Some v)
    show ?thesis
    proof (cases "json_Unmarshal env v")
      case (Inl err)
      with Some show ?thesis
        using that by (simp add: setupHandler_def Let_def cache_Get_def)
    next
      case (Inr sd)
      have "setupHandler env w q = setup_install env (cache_Delete ?w1 ?t) q ?i sd"
        using that Some Inr by (intro setupHandler_found) simp_all
      moreover have "\<exists>es. effects (snd (setup_install env (cache_Delete ?w1 ?t) q ?i sd))
          = effects w @ CacheGet ?t # es"
        by (simp add: setup_install_def Let_def split: sum.splits)
      ultimately show ?thesis by auto
    qed
  qed
  have "setupHandler env w q \<noteq> (HttpRedirect 302 ''/site-admin/github-apps'', w)"
    if "?t \<noteq> []" and "?i \<noteq> []"
  proof (cases "length ?t = 64")
    case False
    with that show ?thesis by (simp add: wrong)
  next
    case True
    have "effects (snd (setupHandler env w q)) \<noteq> effects w"
    proof
      assume "effects (snd (setupHandler env w q)) = effects w"
      with looked_up [OF that True] have "effects w = effects w @ [CacheGet ?t]"
        by simp
      then show False by simp
    qed
    then show ?thesis by auto
  qed
  with direct wrong looked_up show ?thesis by blast
qed

theorem setup_direct_install_condition_witness:
  "Values_Get short_query ''state'' \<noteq> []
   \<and> Values_Get short_query ''installation_id'' \<noteq> []
   \<and> length (Values_Get short_query ''state'') \<noteq> 64
   \<and> setupHandler env0 world0 short_query \<noteq> (HttpRedirect 302 ''/site-admin/github-apps'', world0)
   \<and> setupHandler env0 world0 state_only_query = (HttpRedirect 302 ''/site-admin/github-apps'', world0)
   \<and> Values_Get setup_query_update ''state'' \<noteq> []
   \<and> Values_Get setup_query_update ''installation_id'' \<noteq> []
   \<and> length (Values_Get setup_query_update ''state'') = 64
   \<and> take (Suc (length (effects world0))) (effects (snd (setupHandler env0 world0 setup_query_update)))
       = effects world0 @ [CacheGet state0]"
proof -
  have h1: "Values_Get short_query ''state'' = ''short''"
    and h2: "Values_Get short_query ''installation_id'' = ''12345''"
    by (simp_all add: short_query_def Values_Get_def)
  have h3: "Values_Get state_only_query ''installation_id'' = []"
    by (simp add: state_only_query_def Values_Get_def)
  have h4: "state0 \<noteq> []"
    using length_state0 by auto
  show ?thesis
    using setup_direct_install_condition [of env0 world0 short_query]
      setup_direct_install_condition [of env0 world0 state_only_query]
      setup_direct_install_condition [of env0 world0 setup_query_update]
      h1 h2 h3 h4 state_of_setup_query_update installation_id_of_setup_query_update
      length_state0
    by simp
qed

text \<open>
  C4 as stated (a request with a state but no installation_id proceeds to the validation
  of the state length) fails: the state \<^verbatim>\<open>short\<close> has five characters, and the request
  is redirected to the listing instead of being answered 400.
\<close>

theorem setup_state_without_installation_id_counterexample:
  "Values_Get state_only_query ''state'' = ''short''
   \<and> Values_Get state_only_query ''installation_id'' = []
   \<and> length (Values_Get state_only_query ''state'') \<noteq> 64
   \<and> setupHandler env0 world0 state_only_query
       = (HttpRedirect 302 ''/site-admin/github-apps'', world0)"
  by (simp add: setupHandler_def state_only_query_def Values_Get_def)

subsection \<open>The Domain Router\<close>

text \<open>
  C5. \<^verbatim>\<open>generateRedirectURL\<close> returns a URL that begins with \<^verbatim>\<open>/\<close> whenever the domain
  or the error is present. With neither, when \<^verbatim>\<open>parseDomain\<close> rejects the missing domain,
  the function dereferences the \<^verbatim>\<open>nil\<close> domain to format its message, and panics.
\<close>

theorem generateRedirectURL_nil_domain_no_error:
  "(parseDomain env None = Inl e \<longrightarrow>
      generateRedirectURL env None installationID appID appName None = Inl NilPointerDereference)
   \<and> (domain \<noteq> None \<or> creationErr \<noteq> None \<longrightarrow>
        (\<exists>u. generateRedirectURL env domain installationID appID appName creationErr
                = Inr (CHR ''/'' # u)))"
  by (auto simp: generateRedirectURL_def
      split: option.splits sum.splits GitHubAppDomain.splits)

theorem generateRedirectURL_nil_domain_no_error_witness:
  "parseDomain env0 None = Inl ''empty domain''
   \<and> generateRedirectURL env0 None None None None None = Inl NilPointerDereference
   \<and> generateRedirectURL env0 (Some ''repos'') (Some 42) (Some 7) None None
       = Inr ''/site-admin/github-apps/GitHubApp:7?installation_id=42''"
proof -
  have h: "parseDomain env0 None = Inl ''empty domain''"
    by (simp add: env0_def parseDomain0_def)
  have "generateRedirectURL env0 (Some ''repos'') (Some 42) (Some 7) None None
      = Inr ''/site-admin/github-apps/GitHubApp:7?installation_id=42''"
    by (simp add: generateRedirectURL_def env0_def parseDomain0_def strconv_Itoa_def
        nat_decimal.simps digit_char_def)
  then show ?thesis
    using generateRedirectURL_nil_domain_no_error [of env0 "''empty domain''" None None None]
      h by simp
qed

subsection \<open>The manifest conversion\<close>

lemma createGitHubApp_Inr:
  assumes "MockCreateGitHubApp env = None" and "createGitHubApp env w u d = (Inr app, w')"
  shows "\<exists>r resp. http_NewRequest env ''POST'' u = Inr r \<and> httpClient_Do env r = Inr resp
           \<and> StatusCode resp = 201"
  using assms
  by (auto simp: createGitHubApp_def Let_def split: sum.splits if_splits)

lemma createGitHubApp_not_201:
  assumes "MockCreateGitHubApp env = None" and "http_NewRequest env ''POST'' u = Inr r"
    and "httpClient_Do env r = Inr resp" and "StatusCode resp \<noteq> 201"
  shows "createGitHubApp env w u d =
           (Inl (''expected 201 statusCode, got: '' @ strconv_Itoa (StatusCode resp)),
            emit (HTTPDo r) w)"
  using assms by (simp add: createGitHubApp_def Let_def)

lemma cache_world_newapp:
  \<open>cache world_newapp state0 =
     Some ''{"webhookUUID":"123e4567-e89b-12d3-a456-426614174000","domain":"repos","base_url":"https://github.com"}''\<close>
  by (simp add: world_newapp_def)

lemma json_Unmarshal0_newapp:
  \<open>json_Unmarshal0
     ''{"webhookUUID":"123e4567-e89b-12d3-a456-426614174000","domain":"repos","base_url":"https://github.com"}''
     = Inr ctx_newapp\<close>
  by (simp add: json_Unmarshal0_def)

lemma strconv_Itoa_404: "strconv_Itoa 404 = ''404''"
  by (simp add: strconv_Itoa_def nat_decimal.simps digit_char_def)

text \<open>
  C9. Without the test hook, \<^verbatim>\<open>createGitHubApp\<close> returns an app only if the request was
  sent and answered with status 201. Any other status gives the error "expected 201
  statusCode, got: " followed by the status. \<^verbatim>\<open>/redirect\<close> then answers 500 with that
  message, and its effects are the lookup, the deletion of the token and the request to
  GitHub: no app is created in the database, no webhook is fetched or updated, and no
  token is stored.
\<close>

theorem conversion_requires_201:
  assumes "MockCreateGitHubApp env = None"
  shows "(createGitHubApp env w u d = (Inr app, w') \<longrightarrow>
            (\<exists>r resp. http_NewRequest env ''POST'' u = Inr r \<and> httpClient_Do env r = Inr resp
                \<and> StatusCode resp = 201))
       \<and> (http_NewRequest env ''POST'' u = Inr r \<and> httpClient_Do env r = Inr resp
            \<and> StatusCode resp \<noteq> 201 \<longrightarrow>
            createGitHubApp env w u d =
              (Inl (''expected 201 statusCode, got: '' @ strconv_Itoa (StatusCode resp)),
               emit (HTTPDo r) w))
       \<and> (length t = 64 \<and> Values_Get q ''state'' = t \<and> Values_Get q ''code'' = code
            \<and> code \<noteq> [] \<and> cache w t = Some v \<and> json_Unmarshal env v = Inr sd
            \<and> uuid_Parse env (WebhookUUID sd) = Inr webhookUUID
            \<and> url_Parse env (BaseURL sd) = Inr baseURL
            \<and> url_JoinPath env (url_String (github_APIRoot env baseURL))
                  [''/app-manifests'', code, ''conversions''] = Inr u
            \<and> parseDomain env (Some (Domain sd)) = Inr d
            \<and> http_NewRequest env ''POST'' u = Inr r \<and> httpClient_Do env r = Inr resp
            \<and> StatusCode resp \<noteq> 201 \<longrightarrow>
            redirectHandler env w q =
              (HttpError 500
                 (''Unexpected error while converting github app: expected 201 statusCode, got: ''
                    @ strconv_Itoa (StatusCode resp)),
               emit (HTTPDo r) (cache_Delete (emit (CacheGet t) w) t))
            \<and> effects (emit (HTTPDo r) (cache_Delete (emit (CacheGet t) w) t))
                = effects w @ [CacheGet t, CacheDelete t, HTTPDo r]
            \<and> cache (emit (HTTPDo r) (cache_Delete (emit (CacheGet t) w) t))
                = (cache w)(t := None))"
proof -
  have handler: "redirectHandler env w q =
      (HttpError 500
         (''Unexpected error while converting github app: expected 201 statusCode, got: ''
            @ strconv_Itoa (StatusCode resp)),
       emit (HTTPDo r) (cache_Delete (emit (CacheGet t) w) t))"
    if "length t = 64" and "Values_Get q ''state'' = t" and "Values_Get q ''code'' = code"
      and "code \<noteq> []" and "cache w t = Some v" and "json_Unmarshal env v = Inr sd"
      and "uuid_Parse env (WebhookUUID sd) = Inr webhookUUID"
      and "url_Parse env (BaseURL sd) = Inr baseURL"
      and "url_JoinPath env (url_String (github_APIRoot env baseURL))
             [''/app-manifests'', code, ''conversions''] = Inr u"
      and "parseDomain env (Some (Domain sd)) = Inr d"
      and "http_NewRequest env ''POST'' u = Inr r" and "httpClient_Do env r = Inr resp"
      and "StatusCode resp \<noteq> 201"
  proof -
    let ?w = "cache_Delete (emit (CacheGet t) w) t"
    have "redirectHandler env w q = redirect_convert env ?w code sd"
      using that(1-6) by (rule redirectHandler_found)
    moreover have "createGitHubApp env ?w u d =
        (Inl (''expected 201 statusCode, got: '' @ strconv_Itoa (StatusCode resp)),
         emit (HTTPDo r) ?w)"
      using assms that(11-13) by (rule createGitHubApp_not_201)
    ultimately show ?thesis
      using that(7-10) by (simp add: redirect_convert_def)
  qed
  show ?thesis
    using createGitHubApp_Inr [OF assms, of w u d app w']
      createGitHubApp_not_201 [OF assms, of u r resp w d] handler
    by simp
qed

theorem conversion_requires_201_witness:
  \<open>MockCreateGitHubApp env0 = None
   \<and> length state0 = 64
   \<and> cache world_newapp state0 =
       Some ''{"webhookUUID":"123e4567-e89b-12d3-a456-426614174000","domain":"repos","base_url":"https://github.com"}''
   \<and> httpClient_Do env0
         \<lparr>req_Method = ''POST'',
          req_URL = ''https://api.github.com/app-manifests/abc/conversions''\<rparr>
       = Inr \<lparr>StatusCode = 404, Body = ''Not Found''\<rparr>
   \<and> redirectHandler env0 world_newapp redirect_query =
       (HttpError 500
          ''Unexpected error while converting github app: expected 201 statusCode, got: 404'',
        emit (HTTPDo \<lparr>req_Method = ''POST'',
                      req_URL = ''https://api.github.com/app-manifests/abc/conversions''\<rparr>)
          (cache_Delete (emit (CacheGet state0) world_newapp) state0))
   \<and> effects (emit (HTTPDo \<lparr>req_Method = ''POST'',
                      req_URL = ''https://api.github.com/app-manifests/abc/conversions''\<rparr>)
          (cache_Delete (emit (CacheGet state0) world_newapp) state0))
       = [CacheGet state0, CacheDelete state0,
          HTTPDo \<lparr>req_Method = ''POST'',
                  req_URL = ''https://api.github.com/app-manifests/abc/conversions''\<rparr>]\<close>
proof -
  let ?r = "\<lparr>req_Method = ''POST'',
             req_URL = ''https://api.github.com/app-manifests/abc/conversions''\<rparr>"
  let ?resp = "\<lparr>StatusCode = 404, Body = ''Not Found''\<rparr>"
  let ?base = "\<lparr>url_Scheme = ''https'', url_Host = ''github.com'',
                url_String = ''https://github.com''\<rparr>"
  have m: "MockCreateGitHubApp env0 = None" by (simp add: env0_def)
  have h1: "''abc'' \<noteq> []" by simp
  have h2: "json_Unmarshal env0 (the (cache world_newapp state0)) = Inr ctx_newapp"
    by (simp add: env0_def cache_world_newapp json_Unmarshal0_newapp)
  have h3: "uuid_Parse env0 (WebhookUUID ctx_newapp) = Inr (replicate 16 0)"
    by (simp add: env0_def uuid_Parse0_def ctx_newapp_def)
  have h4: "url_Parse env0 (BaseURL ctx_newapp) = Inr ?base"
    by (simp add: env0_def ctx_newapp_def)
  have h5: "url_JoinPath env0 (url_String (github_APIRoot env0 ?base))
      [''/app-manifests'', ''abc'', ''conversions'']
      = Inr ''https://api.github.com/app-manifests/abc/conversions''"
    by (simp add: env0_def)
  have h6: "parseDomain env0 (Some (Domain ctx_newapp)) = Inr ReposGitHubAppDomain"
    by (simp add: env0_def parseDomain0_def ctx_newapp_def)
  have h7: "http_NewRequest env0 ''POST'' ''https://api.github.com/app-manifests/abc/conversions''
      = Inr ?r"
    by (simp add: env0_def)
  have h8: "httpClient_Do env0 ?r = Inr ?resp"
    by (simp add: env0_def)
  have h9: "effects world_newapp = []" by (simp add: world_newapp_def)
  show ?thesis
    using conversion_requires_201 [OF m,
        where t = state0 and q = redirect_query and code = "''abc''" and w = world_newapp
          and v = "the (cache world_newapp state0)" and sd = ctx_newapp
          and webhookUUID = "replicate 16 0" and baseURL = ?base
          and u = "''https://api.github.com/app-manifests/abc/conversions''"
          and d = ReposGitHubAppDomain and r = ?r and resp = ?resp]
      m h1 h2 h3 h4 h5 h6 h7 h8 h9 length_state0 state_of_redirect_query code_of_redirect_query
      cache_world_newapp strconv_Itoa_404
    by simp
qed

end
